theory Spec2Isabelle
  imports Main
begin

section \<open>The raw response tree\<close>

text \<open>
  The body of a response is a parsed JSON document: an arbitrarily nested tree of
  objects, arrays and scalars. An object is the list of its entries in enumeration order;
  the keys of a parsed document are distinct. Numbers are modelled by the integers.
\<close>

datatype json =
    JNull
  | JBool bool
  | JNum int
  | JStr string
  | JArr "json list"
  | JObj "(string \<times> json) list"

text \<open>
  Property access \<^verbatim>\<open>node[key]\<close> and \<^verbatim>\<open>node?.key\<close>: the value stored under the key, or
  nothing (JavaScript's \<^verbatim>\<open>undefined\<close>) when the node has no such entry. Arrays and scalars
  of a JSON document have no entry named by the keys used here.
\<close>

fun field :: "json \<Rightarrow> string \<Rightarrow> json option" where
  "field (JObj fs) key = map_of fs key"
| "field _ key = None"

text \<open>
  JavaScript's truthiness, as the conditional operator of \<^verbatim>\<open>post\<close> reads it:
  \<^verbatim>\<open>null\<close>, \<^verbatim>\<open>false\<close>, \<^verbatim>\<open>0\<close> and the empty string are falsy, every object and every
  array (the empty ones too) is truthy.
\<close>

fun truthy :: "json \<Rightarrow> bool" where
  "truthy JNull = False"
| "truthy (JBool b) = b"
| "truthy (JNum n) = (n \<noteq> 0)"
| "truthy (JStr s) = (s \<noteq> [])"
| "truthy (JArr xs) = True"
| "truthy (JObj fs) = True"

section \<open>The tree extractor\<close>

text \<open>
  Modelled from the spec: \<^verbatim>\<open>findByFilter\<close> is imported from \<^verbatim>\<open>../helper/JsonUtils\<close>,
  which is not among the sources. The specification's section 4.3 describes it: at an
  object node, first test whether it carries \<^verbatim>\<open>key == value\<close> and emit the node if so, then
  recurse into every field whether or not the node matched; at an array node, recurse
  into every element in order; a scalar contributes nothing.
\<close>

fun findByFilter :: "json \<Rightarrow> string \<Rightarrow> string \<Rightarrow> json list" where
  "findByFilter (JObj fs) key value =
     (if map_of fs key = Some (JStr value) then [JObj fs] else []) @
     concat (map (\<lambda>kv. findByFilter (snd kv) key value) fs)"
| "findByFilter (JArr xs) key value = concat (map (\<lambda>x. findByFilter x key value) xs)"
| "findByFilter _ key value = []"

text \<open>
  The reference the extractor is compared with: every node of a tree, in depth-first
  pre-order from left to right (a node before its children, the children in order), and
  the test "an object node whose entry \<open>key\<close> is the string \<open>value\<close>".
\<close>

fun nodes :: "json \<Rightarrow> json list" where
  "nodes (JObj fs) = JObj fs # concat (map (\<lambda>kv. nodes (snd kv)) fs)"
| "nodes (JArr xs) = JArr xs # concat (map nodes xs)"
| "nodes v = [v]"

definition carries :: "string \<Rightarrow> string \<Rightarrow> json \<Rightarrow> bool" where
  "carries key value n = (field n key = Some (JStr value))"

text \<open>The example tree of the specification's section 8.\<close>

definition example_tree :: json where
  "example_tree =
     JObj [(''a'', JObj [(''__typename'', JStr ''Tweet''), (''id'', JNum 1)]),
           (''b'', JArr [JObj [(''__typename'', JStr ''User''), (''id'', JNum 2)],
                         JObj [(''__typename'', JStr ''Tweet''), (''id'', JNum 3)]])]"

text \<open>The cursor nodes of the example of the specification's section 8.\<close>

definition example_cursors :: json where
  "example_cursors =
     JArr [JObj [(''cursorType'', JStr ''Top''), (''value'', JStr ''X'')],
           JObj [(''cursorType'', JStr ''Bottom''), (''value'', JStr ''Y'')]]"

section \<open>Requests, responses and failures\<close>

text \<open>
  The resource kinds. The enumeration \<^verbatim>\<open>EResourceType\<close> belongs to the package
  \<^verbatim>\<open>rettiwt-core\<close>; the service names three of its members, and every other member is
  represented by its name.
\<close>

datatype EResourceType =
    TWEET_DETAILS
  | TWEET_SEARCH
  | USER_LIKES
  | OTHER_RESOURCE string

text \<open>
  The request descriptor of \<^verbatim>\<open>rettiwt-core\<close> (the three fields \<^verbatim>\<open>request\<close> reads), the
  configuration handed to axios and the response axios resolves with.
\<close>

record Request =
  url :: string
  type :: string
  payload :: "json option"

record AxiosRequestConfig =
  url :: string
  "method" :: string
  data :: "json option"
  headers :: "(string \<times> string) list"

record AxiosResponse =
  status :: int
  statusText :: string
  headers :: "(string \<times> string) list"
  data :: json

text \<open>
  A failed call throws. \<open>Error msg\<close> is \<^verbatim>\<open>new Error(msg)\<close>, thrown by the status
  middleware; \<open>Rejected why\<close> is whatever axios rejects its promise with when no response
  is handed on; \<open>Thrown what\<close> is whatever the constructor of \<open>Request\<close> throws when it
  refuses the arguments.
\<close>

datatype error =
    Error string
  | Rejected string
  | Thrown string

text \<open>
  The service object. The class has one field, \<open>cred\<close>; the model keeps of it the header
  fields that \<^verbatim>\<open>this.cred.toHeader()\<close> yields for a request. Two names the class
  imports are not among the sources and are carried along as parameters, so that every
  theorem holds for each choice of them: the numeric enumeration \<open>EHttpStatus\<close>
  (\<^verbatim>\<open>../enums/HTTP\<close>), read through its reverse mapping from a status code to the name
  of the member with that value, and the constructor of \<open>Request\<close>, which builds the
  descriptor from the resource kind and the arguments or throws.
\<close>

record 'args FetcherService =
  cred :: "(string \<times> string) list"
  EHttpStatus :: "int \<rightharpoonup> string"
  newRequest :: "EResourceType \<Rightarrow> 'args \<Rightarrow> error + Request"

section \<open>The status middleware\<close>

text \<open>
  \<^verbatim>\<open>if (res.status != 200 && res.status in EHttpStatus) throw new Error(EHttpStatus[res.status]);\<close>
  and otherwise \<^verbatim>\<open>return res;\<close>. A status is \<^verbatim>\<open>in\<close> the enumeration when the table has
  an entry for it, and \<^verbatim>\<open>EHttpStatus[res.status]\<close> is that entry.
\<close>

definition handleHTTPError :: "(int \<rightharpoonup> string) \<Rightarrow> AxiosResponse \<Rightarrow> error + AxiosResponse" where
  "handleHTTPError table res =
     (if status res \<noteq> 200 \<and> table (status res) \<noteq> None
      then Inl (Error (the (table (status res))))
      else Inr res)"

section \<open>The transport\<close>

text \<open>
  The network is the part of the world a call touches: the requests sent so far, in
  order, and what the outside answers. The answer to a request may depend on the request
  and on how many were sent before it, so a second attempt could fare differently from
  the first. \<open>axios\<close> sends one request: it records it and yields the answer, a rejection
  or a response.
\<close>

record network =
  sent :: "AxiosRequestConfig list"
  reply :: "nat \<Rightarrow> AxiosRequestConfig \<Rightarrow> error + AxiosResponse"

definition axios :: "AxiosRequestConfig \<Rightarrow> network \<Rightarrow> (error + AxiosResponse) \<times> network" where
  "axios config net =
     (reply net (length (sent net)) config, net\<lparr>sent := sent net @ [config]\<rparr>)"

text \<open>The local constant \<open>axiosRequest\<close> of \<^verbatim>\<open>request\<close>.\<close>

definition axiosRequest :: "'args FetcherService \<Rightarrow> Request \<Rightarrow> AxiosRequestConfig" where
  "axiosRequest svc config =
     \<lparr>AxiosRequestConfig.url = Request.url config,
      method = type config,
      data = payload config,
      headers = cred svc\<rparr>"

definition request ::
  "'args FetcherService \<Rightarrow> Request \<Rightarrow> network \<Rightarrow> (error + AxiosResponse) \<times> network" where
  "request svc config net =
     (case axios (axiosRequest svc config) net of
        (Inl e, net') \<Rightarrow> (Inl e, net')
      | (Inr res, net') \<Rightarrow> (handleHTTPError (EHttpStatus svc) res, net'))"

section \<open>The response normalizer\<close>

text \<open>
  Modelled from the spec: the class \<^verbatim>\<open>CursoredData\<close> (\<^verbatim>\<open>../models/CursoredData\<close>) is not
  among the sources. By the specification's sections 3 and 4.4 the paginated result holds
  the extracted sequence, each raw node passed through as an entity, and the optional
  cursor.
\<close>

record CursoredData =
  list :: "json list"
  "next" :: "json option"

definition new_CursoredData :: "json list \<Rightarrow> json option \<Rightarrow> CursoredData" where
  "new_CursoredData required cursor = \<lparr>list = required, next = cursor\<rparr>"

text \<open>
  The parameters \<^verbatim>\<open>data\<close> and \<^verbatim>\<open>type\<close> of the source are \<open>body\<close> and \<open>kind\<close> here, their
  names being those of record fields. In
  \<^verbatim>\<open>findByFilter(data, 'cursorType', 'Bottom')[0]?.value\<close>, element 0 of an empty array is
  \<^verbatim>\<open>undefined\<close>, and so is the optional access to its \<^verbatim>\<open>value\<close>.
\<close>

definition extractData :: "json \<Rightarrow> EResourceType \<Rightarrow> CursoredData" where
  "extractData body kind =
     (let required =
            (if kind = TWEET_DETAILS \<or> kind = TWEET_SEARCH \<or> kind = USER_LIKES
             then findByFilter body ''__typename'' ''Tweet''
             else findByFilter body ''__typename'' ''User'')
      in new_CursoredData required
           (case findByFilter body ''cursorType'' ''Bottom'' of
              [] \<Rightarrow> None
            | n # rest \<Rightarrow> field n ''value''))"

text \<open>
  The discriminator the specification's section 4.4 binds to a resource kind, written as
  the specification words it: the three tweet-shaped kinds use "Tweet", all others "User".
\<close>

fun spec_discriminator :: "EResourceType \<Rightarrow> string" where
  "spec_discriminator TWEET_DETAILS = ''Tweet''"
| "spec_discriminator TWEET_SEARCH = ''Tweet''"
| "spec_discriminator USER_LIKES = ''Tweet''"
| "spec_discriminator (OTHER_RESOURCE name) = ''User''"

section \<open>The two pipelines\<close>

text \<open>
  Both begin with \<^verbatim>\<open>new Request(resourceType, args)\<close>, outside any handler: what the
  constructor throws ends the call before anything is sent.
\<close>

definition fetch ::
  "'args FetcherService \<Rightarrow> EResourceType \<Rightarrow> 'args \<Rightarrow> network \<Rightarrow> (error + CursoredData) \<times> network" where
  "fetch svc resourceType args net =
     (case newRequest svc resourceType args of
        Inl e \<Rightarrow> (Inl e, net)
      | Inr config \<Rightarrow>
          (case request svc config net of
             (Inl e, net') \<Rightarrow> (Inl e, net')
           | (Inr res, net') \<Rightarrow> (Inr (extractData (data res) resourceType), net')))"

definition post ::
  "'args FetcherService \<Rightarrow> EResourceType \<Rightarrow> 'args \<Rightarrow> network \<Rightarrow> (error + bool) \<times> network" where
  "post svc resourceType args net =
     (case newRequest svc resourceType args of
        Inl e \<Rightarrow> (Inl e, net)
      | Inr config \<Rightarrow>
          (case request svc config net of
             (Inl e, net') \<Rightarrow> (Inl e, net')
           | (Inr res, net') \<Rightarrow> (Inr (if truthy (data res) then True else False), net')))"

text \<open>
  What a call of \<open>fetch\<close> or \<open>post\<close> gets before the status middleware looks at it:
  what the outside answers to the request the call builds, in the network the call
  starts from, or what the constructor threw when no request was built.
\<close>

definition answer ::
  "'args FetcherService \<Rightarrow> EResourceType \<Rightarrow> 'args \<Rightarrow> network \<Rightarrow> error + AxiosResponse" where
  "answer svc resourceType args net =
     (case newRequest svc resourceType args of
        Inl e \<Rightarrow> Inl e
      | Inr config \<Rightarrow> fst (axios (axiosRequest svc config) net))"

section \<open>Example inputs\<close>

text \<open>
  A status table with a few of the usual members, a service built on it whose requests
  are always built, a second service whose constructor takes a result count and refuses
  one outside 1 to 20, a response with a given status and body, and a network that has
  sent nothing yet and answers every request the same way.
\<close>

definition example_EHttpStatus :: "int \<rightharpoonup> string" where
  "example_EHttpStatus =
     map_of [(200, ''OK''), (400, ''BAD_REQUEST''), (401, ''UNAUTHORIZED''),
             (403, ''FORBIDDEN''), (404, ''NOT_FOUND''), (429, ''TOO_MANY_REQUESTS''),
             (500, ''INTERNAL_SERVER_ERROR'')]"

definition example_request :: "EResourceType \<Rightarrow> unit \<Rightarrow> error + Request" where
  "example_request kind args =
     Inr \<lparr>Request.url = ''https://api.example/resource'', type = ''GET'', payload = None\<rparr>"

definition example_service :: "unit FetcherService" where
  "example_service =
     \<lparr>cred = [(''cookie'', ''auth_token=t'')],
      EHttpStatus = example_EHttpStatus,
      newRequest = example_request\<rparr>"

definition search_request :: Request where
  "search_request =
     \<lparr>Request.url = ''https://api.example/search'', type = ''GET'', payload = None\<rparr>"

definition validating_request :: "EResourceType \<Rightarrow> int \<Rightarrow> error + Request" where
  "validating_request kind count =
     (if 1 \<le> count \<and> count \<le> 20 then Inr search_request
      else Inl (Thrown ''DataValidationError''))"

definition validating_service :: "int FetcherService" where
  "validating_service =
     \<lparr>cred = [(''cookie'', ''auth_token=t'')],
      EHttpStatus = example_EHttpStatus,
      newRequest = validating_request\<rparr>"

definition response :: "int \<Rightarrow> json \<Rightarrow> AxiosResponse" where
  "response code body = \<lparr>status = code, statusText = [], headers = [], data = body\<rparr>"

definition answering :: "error + AxiosResponse \<Rightarrow> network" where
  "answering r = \<lparr>sent = [], reply = (\<lambda>n config. r)\<rparr>"

section \<open>Theorems about the tree extractor\<close>

lemma carries_scalar [simp]:
  "carries key value JNull = False"
  "carries key value (JBool b) = False"
  "carries key value (JNum n) = False"
  "carries key value (JStr s) = False"
  "carries key value (JArr xs) = False"
  "carries key value (JObj fs) = (map_of fs key = Some (JStr value))"
  by (simp_all add: carries_def)

lemma findByFilter_filter_nodes:
  "findByFilter t key v = filter (carries key v) (nodes t)"
proof (induction t key v rule: findByFilter.induct)
  case (1 fs key v)
  then show ?case
    by (simp add: filter_concat comp_def cong: map_cong)
next
  case (2 xs key v)
  then show ?case
    by (simp add: filter_concat comp_def cong: map_cong)
qed simp_all

lemma findByFilter_example:
  "findByFilter example_tree ''__typename'' ''Tweet'' =
     [JObj [(''__typename'', JStr ''Tweet''), (''id'', JNum 1)],
      JObj [(''__typename'', JStr ''Tweet''), (''id'', JNum 3)]]"
  by (simp add: example_tree_def)

lemma case_filter_find:
  "(case filter P xs of [] \<Rightarrow> a | x # rest \<Rightarrow> f x) =
   (case List.find P xs of None \<Rightarrow> a | Some x \<Rightarrow> f x)"
  by (induction xs) simp_all

text \<open>
  Claim C2. For every tree and every discriminator pair, the extractor returns exactly
  the object nodes whose entry \<open>key\<close> equals \<open>value\<close>, in depth-first pre-order from left
  to right: its result is the pre-order list of all nodes of the tree with the
  non-matching nodes struck out. Nothing is dropped, merged or moved, so a match nested
  inside another match is reported after it, and a node matched twice in the tree is
  reported twice.
\<close>

theorem findByFilter_preorder_matches:
  "findByFilter t key value = filter (carries key value) (nodes t)"
  by (rule findByFilter_filter_nodes)

section \<open>Theorems about the response normalizer\<close>

lemma list_extractData:
  "list (extractData body kind) = findByFilter body ''__typename'' (spec_discriminator kind)"
  by (cases kind) (simp_all add: extractData_def new_CursoredData_def)

lemma next_extractData:
  "next (extractData body kind) =
     (case findByFilter body ''cursorType'' ''Bottom'' of
        [] \<Rightarrow> None
      | n # rest \<Rightarrow> field n ''value'')"
  by (simp add: extractData_def new_CursoredData_def)

lemma extractData_example_cursors:
  "next (extractData example_cursors kind) = Some (JStr ''Y'')"
  by (simp add: next_extractData example_cursors_def)

text \<open>
  Claim C3. The classification of resource kinds is a total function with two values:
  the entities \<open>extractData\<close> collects for a kind are the nodes whose \<open>__typename\<close> is the
  discriminator the specification binds to that kind, and that discriminator is "Tweet"
  for exactly the three kinds \<open>TWEET_DETAILS\<close>, \<open>TWEET_SEARCH\<close> and \<open>USER_LIKES\<close> and
  "User" for every other kind.
\<close>

theorem extractData_discriminator:
  "list (extractData body kind) = findByFilter body ''__typename'' (spec_discriminator kind)
   \<and> spec_discriminator kind =
       (if kind \<in> {TWEET_DETAILS, TWEET_SEARCH, USER_LIKES} then ''Tweet'' else ''User'')"
  by (cases kind) (simp_all add: list_extractData)

text \<open>
  Claim C4. The cursor of the result is the \<open>value\<close> entry of the first node, in
  traversal order, whose \<open>cursorType\<close> is "Bottom": later such nodes are not looked at,
  and with no such node the cursor is absent.
\<close>

theorem extractData_cursor_first_bottom:
  "next (extractData body kind) =
     (case List.find (carries ''cursorType'' ''Bottom'') (nodes body) of
        None \<Rightarrow> None
      | Some n \<Rightarrow> field n ''value'')"
  by (simp add: next_extractData findByFilter_filter_nodes case_filter_find)

text \<open>
  Claim C7, as stated, fails: in the cursor example of the specification no node carries
  the entity discriminator of a tweet listing, the entity sequence is empty, and yet the
  cursor is present, since the cursor search does not depend on the entity search.
\<close>

theorem extractData_no_entity_but_cursor:
  "filter (carries ''__typename'' (spec_discriminator TWEET_DETAILS)) (nodes example_cursors) = []
   \<and> list (extractData example_cursors TWEET_DETAILS) = []
   \<and> next (extractData example_cursors TWEET_DETAILS) = Some (JStr ''Y'')"
  by (simp add: list_extractData next_extractData example_cursors_def)

text \<open>
  Claim C7, amended. For every body in which no node carries the expected entity
  discriminator (the empty tree is one), extraction yields a result, never a failure,
  and its entity sequence is empty; the cursor is absent when, in addition, no node
  carries the cursor role "Bottom".
\<close>

theorem extractData_no_entity_match:
  assumes "\<forall>n \<in> set (nodes body). \<not> carries ''__typename'' (spec_discriminator kind) n"
  shows "list (extractData body kind) = []
         \<and> ((\<forall>n \<in> set (nodes body). \<not> carries ''cursorType'' ''Bottom'' n) \<longrightarrow>
              next (extractData body kind) = None)"
proof -
  from assms have "list (extractData body kind) = []"
    by (simp add: list_extractData findByFilter_filter_nodes filter_empty_conv)
  moreover have "next (extractData body kind) = None"
    if "\<forall>n \<in> set (nodes body). \<not> carries ''cursorType'' ''Bottom'' n"
  proof -
    from that have "findByFilter body ''cursorType'' ''Bottom'' = []"
      by (simp add: findByFilter_filter_nodes filter_empty_conv)
    then show ?thesis
      by (simp add: next_extractData)
  qed
  ultimately show ?thesis by blast
qed

theorem extractData_no_entity_match_witness:
  "filter (carries ''__typename'' (spec_discriminator TWEET_SEARCH))
     (nodes (JArr [JObj [(''__typename'', JStr ''User''), (''id'', JNum 2)]])) = []
   \<and> list (extractData (JArr [JObj [(''__typename'', JStr ''User''), (''id'', JNum 2)]])
        TWEET_SEARCH) = []
   \<and> next (extractData (JArr [JObj [(''__typename'', JStr ''User''), (''id'', JNum 2)]])
        TWEET_SEARCH) = None"
  using extractData_no_entity_match
          [of "JArr [JObj [(''__typename'', JStr ''User''), (''id'', JNum 2)]]" TWEET_SEARCH]
  by simp

section \<open>Theorems about the status middleware\<close>

lemma handleHTTPError_pass:
  "status res = 200 \<or> table (status res) = None \<Longrightarrow> handleHTTPError table res = Inr res"
  by (auto simp: handleHTTPError_def)

lemma handleHTTPError_Inr:
  "handleHTTPError table res = Inr res' \<Longrightarrow> res' = res"
  by (auto simp: handleHTTPError_def split: if_splits)

lemma handleHTTPError_example_404:
  "handleHTTPError (EHttpStatus example_service) (response 404 body) = Inl (Error ''NOT_FOUND'')"
  by (simp add: handleHTTPError_def example_service_def example_EHttpStatus_def response_def)

lemma handleHTTPError_example_200:
  "handleHTTPError table (response 200 body) = Inr (response 200 body)"
  by (simp add: handleHTTPError_def response_def)

lemma data_response: "data (response code body) = body"
  by (simp add: response_def)

text \<open>
  Claim C1. The comment above the test of the middleware says that a status other than
  200 means an unsuccessful request and therefore an error. The code does not do so for
  a status outside the table: 299 is not 200 and is not a key of the example table, and
  the middleware returns the response instead of failing.
\<close>

theorem handleHTTPError_unlisted_status_example:
  "status (response 299 JNull) \<noteq> 200
   \<and> example_EHttpStatus (status (response 299 JNull)) = None
   \<and> handleHTTPError example_EHttpStatus (response 299 JNull) = Inr (response 299 JNull)"
  by (simp add: handleHTTPError_def response_def example_EHttpStatus_def)

text \<open>
  Claim C6. A response with status 200 is returned unchanged, whatever its body; a
  response whose status is not 200 and is a key of the status table fails with the name
  the table gives that status.
\<close>

theorem handleHTTPError_200_or_listed:
  "(status res = 200 \<longrightarrow> handleHTTPError table res = Inr res)
   \<and> (status res \<noteq> 200 \<and> table (status res) = Some name \<longrightarrow>
        handleHTTPError table res = Inl (Error name))"
  by (simp add: handleHTTPError_def)

theorem handleHTTPError_200_or_listed_witness:
  "handleHTTPError example_EHttpStatus (response 200 JNull) = Inr (response 200 JNull)
   \<and> handleHTTPError example_EHttpStatus (response 404 example_tree) = Inl (Error ''NOT_FOUND'')"
  using handleHTTPError_200_or_listed [of "response 200 JNull" example_EHttpStatus]
        handleHTTPError_200_or_listed
          [of "response 404 example_tree" example_EHttpStatus "''NOT_FOUND''"]
  by (simp add: response_def example_EHttpStatus_def)

section \<open>Theorems about the two pipelines\<close>

lemma fst_request:
  "fst (request svc config net) =
     (case fst (axios (axiosRequest svc config) net) of
        Inl e \<Rightarrow> Inl e
      | Inr res \<Rightarrow> handleHTTPError (EHttpStatus svc) res)"
  by (simp add: request_def split: prod.splits sum.splits)

lemma snd_request:
  "snd (request svc config net) = net\<lparr>sent := sent net @ [axiosRequest svc config]\<rparr>"
  by (simp add: request_def axios_def split: prod.splits sum.splits)

lemma fst_fetch:
  "fst (fetch svc resourceType args net) =
     (case answer svc resourceType args net of
        Inl e \<Rightarrow> Inl e
      | Inr res \<Rightarrow>
          (case handleHTTPError (EHttpStatus svc) res of
             Inl e \<Rightarrow> Inl e
           | Inr res' \<Rightarrow> Inr (extractData (data res') resourceType)))"
proof (cases "newRequest svc resourceType args")
  case (Inl e)
  then show ?thesis
    by (simp add: fetch_def answer_def)
next
  case (Inr config)
  with fst_request [of svc config net] show ?thesis
    by (auto simp: fetch_def answer_def split: prod.splits sum.splits)
qed

lemma snd_fetch:
  "snd (fetch svc resourceType args net) =
     (case newRequest svc resourceType args of
        Inl e \<Rightarrow> net
      | Inr config \<Rightarrow> net\<lparr>sent := sent net @ [axiosRequest svc config]\<rparr>)"
proof (cases "newRequest svc resourceType args")
  case (Inl e)
  then show ?thesis
    by (simp add: fetch_def)
next
  case (Inr config)
  with snd_request [of svc config net] show ?thesis
    by (auto simp: fetch_def split: prod.splits sum.splits)
qed

lemma fst_post:
  "fst (post svc resourceType args net) =
     (case answer svc resourceType args net of
        Inl e \<Rightarrow> Inl e
      | Inr res \<Rightarrow>
          (case handleHTTPError (EHttpStatus svc) res of
             Inl e \<Rightarrow> Inl e
           | Inr res' \<Rightarrow> Inr (truthy (data res'))))"
proof (cases "newRequest svc resourceType args")
  case (Inl e)
  then show ?thesis
    by (simp add: post_def answer_def)
next
  case (Inr config)
  with fst_request [of svc config net] show ?thesis
    by (auto simp: post_def answer_def split: prod.splits sum.splits)
qed

lemma snd_post:
  "snd (post svc resourceType args net) =
     (case newRequest svc resourceType args of
        Inl e \<Rightarrow> net
      | Inr config \<Rightarrow> net\<lparr>sent := sent net @ [axiosRequest svc config]\<rparr>)"
proof (cases "newRequest svc resourceType args")
  case (Inl e)
  then show ?thesis
    by (simp add: post_def)
next
  case (Inr config)
  with snd_request [of svc config net] show ?thesis
    by (auto simp: post_def split: prod.splits sum.splits)
qed

lemma answer_answering: "answer example_service resourceType args (answering r) = r"
  by (simp add: answer_def axios_def answering_def example_service_def example_request_def)

lemma truthy_iff: "truthy b = (b \<notin> {JStr [], JNum 0, JNull, JBool False})"
  by (cases b) auto

text \<open>
  Claim C5. When the request is answered by a response with status 200, \<open>post\<close> returns
  the truthiness of the body: \<open>true\<close> for every body other than the empty string, \<open>0\<close>,
  \<open>null\<close> and \<open>false\<close>, and \<open>false\<close> for these four.
\<close>

theorem post_200_truthy:
  assumes "answer svc resourceType args net = Inr res" and "status res = 200"
  shows "fst (post svc resourceType args net) = Inr (truthy (data res))
         \<and> truthy (data res) = (data res \<notin> {JStr [], JNum 0, JNull, JBool False})"
  using assms by (simp add: fst_post handleHTTPError_pass truthy_iff)

theorem post_200_truthy_witness:
  "fst (post example_service TWEET_DETAILS () (answering (Inr (response 200 (JStr []))))) = Inr False
   \<and> fst (post example_service TWEET_DETAILS () (answering (Inr (response 200 (JNum 0))))) = Inr False
   \<and> fst (post example_service TWEET_DETAILS () (answering (Inr (response 200 JNull)))) = Inr False
   \<and> fst (post example_service TWEET_DETAILS () (answering (Inr (response 200 (JBool False))))) = Inr False
   \<and> fst (post example_service TWEET_DETAILS () (answering (Inr (response 200 (JStr ''ok''))))) = Inr True
   \<and> fst (post example_service TWEET_DETAILS () (answering (Inr (response 200 (JNum 7))))) = Inr True
   \<and> fst (post example_service TWEET_DETAILS () (answering (Inr (response 200 (JObj []))))) = Inr True"
proof -
  have ok: "status (response 200 body) = 200" for body
    by (simp add: response_def)
  note posted = post_200_truthy
    [where svc = example_service and resourceType = TWEET_DETAILS and args = "()",
     OF answer_answering ok]
  show ?thesis
    using posted [of "JStr []"] posted [of "JNum 0"] posted [of JNull] posted [of "JBool False"]
          posted [of "JStr ''ok''"] posted [of "JNum 7"] posted [of "JObj []"]
    by (simp add: data_response)
qed

text \<open>
  Claim C8, as stated, fails: when the constructor of \<open>Request\<close> refuses the arguments,
  the call fails with what the constructor threw, which is neither a rejection of axios
  nor a failure of the status middleware, and no request is sent.
\<close>

theorem fetch_refused_sends_nothing:
  "newRequest validating_service TWEET_SEARCH 500 = Inl (Thrown ''DataValidationError'')
   \<and> fst (fetch validating_service TWEET_SEARCH 500 (answering (Inr (response 200 JNull)))) =
       Inl (Thrown ''DataValidationError'')
   \<and> sent (snd (fetch validating_service TWEET_SEARCH 500 (answering (Inr (response 200 JNull))))) =
       []"
  by (simp add: fetch_def validating_service_def validating_request_def answering_def)

text \<open>
  Claim C8, amended. When the constructor of \<open>Request\<close> throws, \<open>fetch\<close> fails with what
  it threw and sends nothing. When the request is built, \<open>fetch\<close> sends exactly one
  request, that one, and leaves the rest of the network alone; when axios rejects, the
  call fails with that rejection; when the status middleware fails on the response, the
  call fails with that failure; and a failure of the call is always one of these two,
  unchanged. Nothing is retried and nothing is recovered.
\<close>

theorem fetch_failure_propagates_once:
  "(\<forall>e. newRequest svc resourceType args = Inl e \<longrightarrow>
        fetch svc resourceType args net = (Inl e, net))
   \<and> (\<forall>config. newRequest svc resourceType args = Inr config \<longrightarrow>
        sent (snd (fetch svc resourceType args net)) = sent net @ [axiosRequest svc config]
        \<and> reply (snd (fetch svc resourceType args net)) = reply net
        \<and> (\<forall>e. fst (axios (axiosRequest svc config) net) = Inl e \<longrightarrow>
               fst (fetch svc resourceType args net) = Inl e)
        \<and> (\<forall>res e. fst (axios (axiosRequest svc config) net) = Inr res
                     \<and> handleHTTPError (EHttpStatus svc) res = Inl e \<longrightarrow>
               fst (fetch svc resourceType args net) = Inl e)
        \<and> (\<forall>e. fst (fetch svc resourceType args net) = Inl e \<longrightarrow>
               fst (axios (axiosRequest svc config) net) = Inl e
               \<or> (\<exists>res. fst (axios (axiosRequest svc config) net) = Inr res
                        \<and> handleHTTPError (EHttpStatus svc) res = Inl e)))"
proof (cases "newRequest svc resourceType args")
  case (Inl e)
  then show ?thesis
    by (simp add: fetch_def)
next
  case built: (Inr config)
  then have dispatched: "answer svc resourceType args net = fst (axios (axiosRequest svc config) net)"
    by (simp add: answer_def)
  show ?thesis
  proof (cases "fst (axios (axiosRequest svc config) net)")
    case (Inl e)
    with built dispatched show ?thesis
      by (simp add: fst_fetch snd_fetch)
  next
    case (Inr res)
    with built dispatched show ?thesis
      by (cases "handleHTTPError (EHttpStatus svc) res") (simp_all add: fst_fetch snd_fetch)
  qed
qed

theorem fetch_failure_propagates_once_witness:
  "fetch validating_service TWEET_SEARCH 500 (answering (Inr (response 200 JNull))) =
     (Inl (Thrown ''DataValidationError''), answering (Inr (response 200 JNull)))
   \<and> fst (fetch validating_service TWEET_SEARCH 10 (answering (Inl (Rejected ''timeout'')))) =
     Inl (Rejected ''timeout'')
   \<and> fst (fetch validating_service TWEET_SEARCH 10 (answering (Inr (response 404 JNull)))) =
     Inl (Error ''NOT_FOUND'')
   \<and> sent (snd (fetch validating_service TWEET_SEARCH 10 (answering (Inl (Rejected ''timeout''))))) =
     [axiosRequest validating_service search_request]
   \<and> sent (snd (fetch validating_service TWEET_SEARCH 10 (answering (Inr (response 404 JNull))))) =
     [axiosRequest validating_service search_request]"
proof -
  let ?ok = "answering (Inr (response 200 JNull))"
  let ?down = "answering (Inl (Rejected ''timeout''))"
  let ?missing = "answering (Inr (response 404 JNull))"
  have refused: "newRequest validating_service TWEET_SEARCH 500 = Inl (Thrown ''DataValidationError'')"
    by (simp add: validating_service_def validating_request_def)
  have built: "newRequest validating_service TWEET_SEARCH 10 = Inr search_request"
    by (simp add: validating_service_def validating_request_def)
  note none = fetch_failure_propagates_once [of validating_service TWEET_SEARCH 500 ?ok]
  note down = fetch_failure_propagates_once [of validating_service TWEET_SEARCH 10 ?down,
      THEN conjunct2, rule_format, OF built]
  note missing = fetch_failure_propagates_once [of validating_service TWEET_SEARCH 10 ?missing,
      THEN conjunct2, rule_format, OF built]
  have fresh: "sent (answering r) = []" for r
    by (simp add: answering_def)
  have sends: "fst (axios config (answering r)) = r" for config r
    by (simp add: axios_def answering_def)
  have listed: "handleHTTPError (EHttpStatus validating_service) (response 404 JNull) =
      Inl (Error ''NOT_FOUND'')"
    by (simp add: handleHTTPError_def validating_service_def example_EHttpStatus_def response_def)
  have "fetch validating_service TWEET_SEARCH 500 ?ok = (Inl (Thrown ''DataValidationError''), ?ok)"
    using none [THEN conjunct1] refused by blast
  moreover have "fst (fetch validating_service TWEET_SEARCH 10 ?down) = Inl (Rejected ''timeout'')"
    using down [THEN conjunct2, THEN conjunct2, THEN conjunct1]
      sends [of "axiosRequest validating_service search_request" "Inl (Rejected ''timeout'')"]
    by blast
  moreover have "fst (fetch validating_service TWEET_SEARCH 10 ?missing) = Inl (Error ''NOT_FOUND'')"
    using missing [THEN conjunct2, THEN conjunct2, THEN conjunct2, THEN conjunct1]
      sends [of "axiosRequest validating_service search_request" "Inr (response 404 JNull)"] listed
    by blast
  moreover have "sent (snd (fetch validating_service TWEET_SEARCH 10 ?down)) =
      [axiosRequest validating_service search_request]"
    using down [THEN conjunct1] by (simp add: fresh)
  moreover have "sent (snd (fetch validating_service TWEET_SEARCH 10 ?missing)) =
      [axiosRequest validating_service search_request]"
    using missing [THEN conjunct1] by (simp add: fresh)
  ultimately show ?thesis by blast
qed

text \<open>
  Claim C9. \<open>post\<close> sends the same request as \<open>fetch\<close> and fails exactly when \<open>fetch\<close>
  fails, with the same failure; in particular, when the status middleware fails on the
  response, \<open>post\<close> fails with that failure and returns no boolean. It returns \<open>false\<close>
  only when the middleware let the response through and the body is falsy.
\<close>

theorem post_failure_propagates:
  "snd (post svc resourceType args net) = snd (fetch svc resourceType args net)
   \<and> (\<forall>e. (fst (post svc resourceType args net) = Inl e) =
             (fst (fetch svc resourceType args net) = Inl e))
   \<and> (\<forall>res e. answer svc resourceType args net = Inr res
                \<and> handleHTTPError (EHttpStatus svc) res = Inl e \<longrightarrow>
          fst (post svc resourceType args net) = Inl e)
   \<and> (fst (post svc resourceType args net) = Inr False \<longrightarrow>
        (\<exists>res. answer svc resourceType args net = Inr res
               \<and> handleHTTPError (EHttpStatus svc) res = Inr res
               \<and> \<not> truthy (data res)))"
proof (cases "answer svc resourceType args net")
  case (Inl e)
  then show ?thesis
    by (simp add: fst_post snd_post fst_fetch snd_fetch)
next
  case answered: (Inr res)
  show ?thesis
  proof (cases "handleHTTPError (EHttpStatus svc) res")
    case (Inl e)
    with answered show ?thesis
      by (simp add: fst_post snd_post fst_fetch snd_fetch)
  next
    case (Inr res')
    then have "res' = res"
      by (rule handleHTTPError_Inr)
    with Inr answered show ?thesis
      by (simp add: fst_post snd_post fst_fetch snd_fetch)
  qed
qed

theorem post_failure_propagates_witness:
  "fst (post example_service TWEET_DETAILS () (answering (Inr (response 404 JNull)))) =
     Inl (Error ''NOT_FOUND'')
   \<and> snd (post example_service TWEET_DETAILS () (answering (Inr (response 404 JNull)))) =
     snd (fetch example_service TWEET_DETAILS () (answering (Inr (response 404 JNull))))
   \<and> fst (post example_service TWEET_DETAILS () (answering (Inr (response 200 (JNum 0))))) =
     Inr False
   \<and> (\<exists>res. answer example_service TWEET_DETAILS () (answering (Inr (response 200 (JNum 0)))) =
               Inr res
            \<and> handleHTTPError (EHttpStatus example_service) res = Inr res
            \<and> \<not> truthy (data res))"
proof -
  let ?missing = "answering (Inr (response 404 JNull))"
  let ?zero = "answering (Inr (response 200 (JNum 0)))"
  note missing = post_failure_propagates [of example_service TWEET_DETAILS "()" ?missing]
  note zero = post_failure_propagates [of example_service TWEET_DETAILS "()" ?zero]
  have answered: "answer example_service TWEET_DETAILS () (answering r) = r" for r
    by (rule answer_answering)
  have failed: "fst (post example_service TWEET_DETAILS () ?missing) = Inl (Error ''NOT_FOUND'')"
    using missing [THEN conjunct2, THEN conjunct2, THEN conjunct1]
      answered [of "Inr (response 404 JNull)"] handleHTTPError_example_404 [of JNull]
    by blast
  have falsy: "fst (post example_service TWEET_DETAILS () ?zero) = Inr False"
    by (simp add: fst_post answered handleHTTPError_example_200 data_response)
  from zero [THEN conjunct2, THEN conjunct2, THEN conjunct2] falsy
  have "\<exists>res. answer example_service TWEET_DETAILS () ?zero = Inr res
            \<and> handleHTTPError (EHttpStatus example_service) res = Inr res
            \<and> \<not> truthy (data res)"
    by blast
  with failed falsy missing [THEN conjunct1] show ?thesis
    by blast
qed

text \<open>
  Claim C10. Where the status middleware does not fail, what it returns is the response
  it was given; so whenever \<open>fetch\<close> succeeds, its result is the normalizer's result on
  the body of the very response the transport delivered.
\<close>

theorem handleHTTPError_identity_body_unmodified:
  "(handleHTTPError table res = Inr res' \<longrightarrow> res' = res)
   \<and> (fst (fetch svc resourceType args net) = Inr result \<longrightarrow>
        (\<exists>delivered. answer svc resourceType args net = Inr delivered
               \<and> result = extractData (data delivered) resourceType))"
proof
  show "handleHTTPError table res = Inr res' \<longrightarrow> res' = res"
    by (auto dest: handleHTTPError_Inr)
next
  show "fst (fetch svc resourceType args net) = Inr result \<longrightarrow>
        (\<exists>delivered. answer svc resourceType args net = Inr delivered
               \<and> result = extractData (data delivered) resourceType)"
  proof (cases "answer svc resourceType args net")
    case (Inl e)
    then show ?thesis
      by (simp add: fst_fetch)
  next
    case answered: (Inr r)
    show ?thesis
    proof (cases "handleHTTPError (EHttpStatus svc) r")
      case (Inl e)
      with answered show ?thesis
        by (simp add: fst_fetch)
    next
      case (Inr r')
      then have "r' = r"
        by (rule handleHTTPError_Inr)
      with Inr answered show ?thesis
        by (auto simp: fst_fetch)
    qed
  qed
qed

theorem handleHTTPError_identity_body_unmodified_witness:
  "handleHTTPError example_EHttpStatus (response 200 example_tree) = Inr (response 200 example_tree)
   \<and> fst (fetch example_service TWEET_DETAILS () (answering (Inr (response 200 example_tree)))) =
       Inr (extractData example_tree TWEET_DETAILS)
   \<and> (\<exists>delivered.
         answer example_service TWEET_DETAILS () (answering (Inr (response 200 example_tree))) =
           Inr delivered
         \<and> extractData example_tree TWEET_DETAILS = extractData (data delivered) TWEET_DETAILS)"
proof -
  let ?ok = "answering (Inr (response 200 example_tree))"
  note passed = handleHTTPError_example_200 [of _ example_tree]
  have fetched:
    "fst (fetch example_service TWEET_DETAILS () ?ok) = Inr (extractData example_tree TWEET_DETAILS)"
    by (simp add: fst_fetch answer_answering passed data_response)
  note inst = handleHTTPError_identity_body_unmodified
    [of example_EHttpStatus "response 200 example_tree" "response 200 example_tree"
        example_service TWEET_DETAILS "()" ?ok "extractData example_tree TWEET_DETAILS"]
  from inst [THEN conjunct2] fetched
  have "\<exists>delivered. answer example_service TWEET_DETAILS () ?ok = Inr delivered
          \<and> extractData example_tree TWEET_DETAILS = extractData (data delivered) TWEET_DETAILS"
    by blast
  with passed [of example_EHttpStatus] fetched show ?thesis
    by blast
qed

end
